theory Spec2Isabelle
  imports Main "HOL-Library.Multiset"
begin

section \<open>Data model\<close>

text \<open>
  The request handlers of \<^verbatim>\<open>main.py\<close> over the tables of \<^verbatim>\<open>models/models.py\<close>.
  The database session is explicit state: a handler takes the store and returns its
  response together with the store it leaves behind. An exception is a value of
  \<open>error\<close>; \<open>HTTPException\<close> carries its status code and detail, every other
  exception leaves the handler unhandled.
\<close>

type_synonym json = "(string \<times> string) list"
type_synonym datetime = int

datatype error =
    HTTPException nat string
  | AttributeError string
  | ProgrammingError
  | DataError
  | IntegrityError

text \<open>The status the client sees: 200 for a returned value, the code of an
  \<open>HTTPException\<close>, and 500 for any exception the handler does not catch.\<close>

fun status_code :: "error + 'a \<Rightarrow> nat" where
  "status_code (Inr v) = 200"
| "status_code (Inl (HTTPException c d)) = c"
| "status_code (Inl e) = 500"

subsection \<open>Tables (models/models.py)\<close>

record role_row =
  r_id :: int
  r_name :: string
  r_permissions :: json

record user_row =
  u_id :: int
  u_email :: string
  u_username :: string
  u_registered_at :: datetime
  u_role_id :: int
  u_hashed_password :: string
  u_is_active :: bool
  u_is_superuser :: bool
  u_is_verified :: bool

record artist_row =
  a_id :: int
  a_name :: string
  a_genre :: "string option"
  a_country :: "string option"

record album_row =
  al_id :: int
  al_title :: string
  al_release_date :: datetime
  al_artist_id :: int

record song_row =
  s_id :: int
  s_title :: string
  s_duration :: int
  s_album_id :: int
  s_artist_id :: int

text \<open>
  The store: each table is the list of its rows in the order a scan of the table yields
  them, with the value of the sequence that feeds its integer primary key. The foreign
  keys of \<^verbatim>\<open>models.py\<close> (\<^verbatim>\<open>users.role_id\<close>, \<^verbatim>\<open>albums.artist_id\<close>, \<^verbatim>\<open>songs.album_id\<close>,
  \<^verbatim>\<open>songs.artist_id\<close>, none with an \<^verbatim>\<open>ondelete\<close>) and the range of the \<^verbatim>\<open>Integer\<close> columns
  are checked by the statements below.
\<close>

record db =
  roles :: "role_row list"
  roles_id_seq :: int
  users :: "user_row list"
  users_id_seq :: int
  artists :: "artist_row list"
  artists_id_seq :: int
  albums :: "album_row list"
  albums_id_seq :: int
  songs :: "song_row list"
  songs_id_seq :: int

subsection \<open>Request and response models (main.py, lines 54-159)\<close>

record RoleCreate =
  rc_name :: string
  rc_permissions :: json

text \<open>\<^verbatim>\<open>permissions: dict = {}\<close>: a body without the key gets the class default.\<close>

definition parse_RoleCreate :: "string \<Rightarrow> json option \<Rightarrow> RoleCreate" where
  "parse_RoleCreate name permissions =
     \<lparr>rc_name = name,
      rc_permissions = (case permissions of None \<Rightarrow> [] | Some p \<Rightarrow> p)\<rparr>"

record UserCreate =
  uc_email :: string
  uc_username :: string
  uc_role_id :: int
  uc_hashed_password :: string
  uc_is_active :: bool
  uc_is_superuser :: bool
  uc_is_verified :: bool

record ArtistCreate =
  ac_name :: string
  ac_genre :: "string option"
  ac_country :: "string option"

record AlbumCreate =
  alc_title :: string
  alc_release_date :: datetime
  alc_artist_id :: int

record SongCreate =
  sc_title :: string
  sc_duration :: int
  sc_album_id :: int
  sc_artist_id :: int

text \<open>The response model \<^verbatim>\<open>User\<close> (lines 91-102) has no \<^verbatim>\<open>hashed_password\<close>. The
  response models \<^verbatim>\<open>Role\<close>, \<^verbatim>\<open>Artist\<close>, \<^verbatim>\<open>Album\<close> and \<^verbatim>\<open>Song\<close> have exactly the
  columns of their tables, so a row of the table stands for them.\<close>

record User =
  User_id :: int
  User_email :: string
  User_username :: string
  User_role_id :: int
  User_registered_at :: datetime
  User_is_active :: bool
  User_is_superuser :: bool
  User_is_verified :: bool

definition to_User :: "user_row \<Rightarrow> User" where
  "to_User r =
     \<lparr>User_id = u_id r, User_email = u_email r, User_username = u_username r,
      User_role_id = u_role_id r, User_registered_at = u_registered_at r,
      User_is_active = u_is_active r, User_is_superuser = u_is_superuser r,
      User_is_verified = u_is_verified r\<rparr>"

record UserUpdate =
  uu_email :: "string option"
  uu_username :: "string option"
  uu_role_id :: "int option"
  uu_hashed_password :: "string option"
  uu_is_active :: "bool option"
  uu_is_superuser :: "bool option"
  uu_is_verified :: "bool option"

record ArtistUpdate =
  au_name :: "string option"
  au_genre :: "string option"
  au_country :: "string option"

text \<open>Every field of the two update models has the default \<^verbatim>\<open>None\<close>: these are the
  payloads of a request body that gives no field. (The models \<^verbatim>\<open>RoleUpdate\<close>,
  \<^verbatim>\<open>AlbumUpdate\<close> and \<^verbatim>\<open>SongUpdate\<close> are declared too, and no handler takes them.)\<close>

definition UserUpdate_default :: UserUpdate where
  "UserUpdate_default =
     \<lparr>uu_email = None, uu_username = None, uu_role_id = None, uu_hashed_password = None,
      uu_is_active = None, uu_is_superuser = None, uu_is_verified = None\<rparr>"

definition ArtistUpdate_default :: ArtistUpdate where
  "ArtistUpdate_default = \<lparr>au_name = None, au_genre = None, au_country = None\<rparr>"

text \<open>\<^verbatim>\<open>getattr\<close> on a \<^verbatim>\<open>UserCreate\<close> for an attribute read as a string: the class
  declares three string fields, any other name raises \<^verbatim>\<open>AttributeError\<close>.\<close>

definition UserCreate_getattr :: "UserCreate \<Rightarrow> string \<Rightarrow> error + string" where
  "UserCreate_getattr user a =
     (if a = ''email'' then Inr (uc_email user)
      else if a = ''username'' then Inr (uc_username user)
      else if a = ''hashed_password'' then Inr (uc_hashed_password user)
      else Inl (AttributeError a))"

section \<open>Statements\<close>

text \<open>A column with the value assigned to it, as one item of the dictionary given to
  \<^verbatim>\<open>values\<close>.\<close>

datatype role_col = Role_name string | Role_permissions json

datatype user_col =
    Email string
  | Username string
  | Role_id int
  | Hashed_password string
  | Is_active bool
  | Is_superuser bool
  | Is_verified bool

datatype artist_col = Name string | Genre "string option" | Country "string option"

fun set_role_col :: "role_col \<Rightarrow> role_row \<Rightarrow> role_row" where
  "set_role_col (Role_name v) r = r\<lparr>r_name := v\<rparr>"
| "set_role_col (Role_permissions v) r = r\<lparr>r_permissions := v\<rparr>"

fun set_user_col :: "user_col \<Rightarrow> user_row \<Rightarrow> user_row" where
  "set_user_col (Email v) r = r\<lparr>u_email := v\<rparr>"
| "set_user_col (Username v) r = r\<lparr>u_username := v\<rparr>"
| "set_user_col (Role_id v) r = r\<lparr>u_role_id := v\<rparr>"
| "set_user_col (Hashed_password v) r = r\<lparr>u_hashed_password := v\<rparr>"
| "set_user_col (Is_active v) r = r\<lparr>u_is_active := v\<rparr>"
| "set_user_col (Is_superuser v) r = r\<lparr>u_is_superuser := v\<rparr>"
| "set_user_col (Is_verified v) r = r\<lparr>u_is_verified := v\<rparr>"

fun set_artist_col :: "artist_col \<Rightarrow> artist_row \<Rightarrow> artist_row" where
  "set_artist_col (Name v) r = r\<lparr>a_name := v\<rparr>"
| "set_artist_col (Genre v) r = r\<lparr>a_genre := v\<rparr>"
| "set_artist_col (Country v) r = r\<lparr>a_country := v\<rparr>"

text \<open>\<^verbatim>\<open>{k: v for k, v in user.dict().items() if v is not None}\<close>: the fields of the
  payload in declaration order, a null one dropped.\<close>

definition UserUpdate_dict :: "UserUpdate \<Rightarrow> user_col option list" where
  "UserUpdate_dict user =
     [map_option Email (uu_email user),
      map_option Username (uu_username user),
      map_option Role_id (uu_role_id user),
      map_option Hashed_password (uu_hashed_password user),
      map_option Is_active (uu_is_active user),
      map_option Is_superuser (uu_is_superuser user),
      map_option Is_verified (uu_is_verified user)]"

definition ArtistUpdate_dict :: "ArtistUpdate \<Rightarrow> artist_col option list" where
  "ArtistUpdate_dict artist =
     [map_option Name (au_name artist),
      map_option (\<lambda>v. Genre (Some v)) (au_genre artist),
      map_option (\<lambda>v. Country (Some v)) (au_country artist)]"

definition not_None :: "'c option list \<Rightarrow> 'c list" where
  "not_None items = List.map_filter (\<lambda>v. v) items"

text \<open>
  \<^verbatim>\<open>select(t).where(t.c.id == i)\<close> with \<^verbatim>\<open>fetchone()\<close>: the first row of the scan with
  that id, or \<^verbatim>\<open>None\<close>.
\<close>

definition select_by_id :: "('r \<Rightarrow> int) \<Rightarrow> int \<Rightarrow> 'r list \<Rightarrow> 'r option" where
  "select_by_id key i rows = find (\<lambda>r. key r = i) rows"

text \<open>An \<^verbatim>\<open>Integer\<close> column holds a signed 32-bit value.\<close>

definition int4 :: "int \<Rightarrow> bool" where
  "int4 v = (- 2147483648 \<le> v \<and> v \<le> 2147483647)"

text \<open>
  \<^verbatim>\<open>select(t).limit(limit).offset(offset)\<close> with \<^verbatim>\<open>fetchall()\<close>. The statement has no
  \<^verbatim>\<open>ORDER BY\<close>: the rows come in the order of the scan. The engine (PostgreSQL, by
  \<^verbatim>\<open>DATABASE_URL\<close>) takes \<^verbatim>\<open>LIMIT\<close> and \<^verbatim>\<open>OFFSET\<close> as signed 64-bit values and refuses
  a negative one; a value it refuses raises.
\<close>

definition select_limit_offset :: "int \<Rightarrow> int \<Rightarrow> 'r list \<Rightarrow> error + 'r list" where
  "select_limit_offset limit offset rows =
     (if 0 \<le> limit \<and> limit \<le> 9223372036854775807 \<and>
         0 \<le> offset \<and> offset \<le> 9223372036854775807
      then Inr (take (nat limit) (drop (nat offset) rows))
      else Inl DataError)"

text \<open>
  \<^verbatim>\<open>insert(t).values(...).returning(...)\<close>. \<open>ints\<close> are the values the statement gives
  to \<^verbatim>\<open>Integer\<close> columns, and \<open>refs\<close> says whether every foreign key of the new row
  references a row of its table. A value out of the 32-bit range raises before a row is
  written. Otherwise the id is the next value of the table's sequence (a sequence of
  32-bit values); a value already used as a primary key, or a foreign key that references
  no row, is refused, and the sequence has advanced all the same. The new row goes to the
  end of the scan.
\<close>

definition insert_returning ::
  "('r \<Rightarrow> int) \<Rightarrow> (int \<Rightarrow> 'r) \<Rightarrow> int list \<Rightarrow> bool \<Rightarrow> int \<Rightarrow> 'r list
     \<Rightarrow> int \<times> (error + 'r \<times> 'r list)" where
  "insert_returning key mk ints refs seq rows =
     (if list_all int4 ints \<and> int4 (seq + 1) then
        (let i = seq + 1 in
         if i \<in> set (map key rows) then (i, Inl IntegrityError)
         else if refs then (i, Inr (mk i, rows @ [mk i]))
         else (i, Inl IntegrityError))
      else (seq, Inl DataError))"

text \<open>
  \<^verbatim>\<open>update(t).where(t.c.id == i).values(d).returning(...)\<close> with \<^verbatim>\<open>fetchone()\<close>. The
  \<^verbatim>\<open>SET\<close> clause is rendered from the items of \<open>d\<close>; with no item the statement reads
  \<^verbatim>\<open>UPDATE t SET WHERE ...\<close>, which is not SQL, and its execution raises. \<open>ints\<close> are
  the values the items give to \<^verbatim>\<open>Integer\<close> columns: they are constants of the statement,
  and one out of the 32-bit range raises whether or not a row has the id. \<open>refs\<close> says
  whether every foreign key among the items references a row of its table: it is checked
  for a row that is written, and a failed check raises with no row written. Otherwise
  every row with the id gets the assignments in order; the first of them is the row
  fetched, and the new versions of the rows stand at the end of the scan.
\<close>

definition update_returning ::
  "('r \<Rightarrow> int) \<Rightarrow> ('c \<Rightarrow> 'r \<Rightarrow> 'r) \<Rightarrow> int list \<Rightarrow> bool \<Rightarrow> int \<Rightarrow> 'c list \<Rightarrow> 'r list
     \<Rightarrow> error + 'r option \<times> 'r list" where
  "update_returning key setc ints refs i d rows =
     (if d = [] then Inl ProgrammingError
      else if list_all int4 ints then
        (case find (\<lambda>r. key r = i) rows of
           None \<Rightarrow> Inr (None, rows)
         | Some r \<Rightarrow>
             if refs
             then Inr (Some (fold setc d r),
                       filter (\<lambda>r. key r \<noteq> i) rows
                         @ map (fold setc d) (filter (\<lambda>r. key r = i) rows))
             else Inl IntegrityError)
      else Inl DataError)"

text \<open>\<^verbatim>\<open>delete(t).where(t.c.id == i)\<close>: the number of rows removed (\<^verbatim>\<open>rowcount\<close>) and
  the rows left. \<open>referenced\<close> says whether a row of another table references the id
  through a foreign key; the removal of a referenced row raises, and no row is removed.\<close>

definition delete_where_id ::
  "('r \<Rightarrow> int) \<Rightarrow> bool \<Rightarrow> int \<Rightarrow> 'r list \<Rightarrow> error + nat \<times> 'r list" where
  "delete_where_id key referenced i rows =
     (case find (\<lambda>r. key r = i) rows of
        None \<Rightarrow> Inr (0, rows)
      | Some r \<Rightarrow>
          if referenced then Inl IntegrityError
          else Inr (length (filter (\<lambda>r. key r = i) rows), filter (\<lambda>r. key r \<noteq> i) rows))"

section \<open>Handlers (main.py, lines 162-376)\<close>

text \<open>Each handler keeps the name it has in \<^verbatim>\<open>main.py\<close>. A handler that writes returns
  its response and the store after it; a handler that only reads returns its response.
  The store after an exception is the store the closed session leaves: the statement
  that raised has changed no row.\<close>

subsection \<open>Roles\<close>

definition create_role :: "RoleCreate \<Rightarrow> db \<Rightarrow> (error + role_row) \<times> db" where
  "create_role role db =
     (case insert_returning r_id
             (\<lambda>i. \<lparr>r_id = i, r_name = rc_name role, r_permissions = rc_permissions role\<rparr>)
             [] True (roles_id_seq db) (roles db) of
        (i, Inl e) \<Rightarrow> (Inl e, db\<lparr>roles_id_seq := i\<rparr>)
      | (i, Inr (result, rows)) \<Rightarrow> (Inr result, db\<lparr>roles := rows, roles_id_seq := i\<rparr>))"

definition get_roles :: "db \<Rightarrow> error + role_row list" where
  "get_roles db = Inr (roles db)"

definition get_role :: "int \<Rightarrow> db \<Rightarrow> error + role_row" where
  "get_role role_id db =
     (case select_by_id r_id role_id (roles db) of
        None \<Rightarrow> Inl (HTTPException 404 ''Role not found'')
      | Some result \<Rightarrow> Inr result)"

definition update_role :: "int \<Rightarrow> RoleCreate \<Rightarrow> db \<Rightarrow> (error + role_row) \<times> db" where
  "update_role role_id role db =
     (case update_returning r_id set_role_col [] True role_id
             [Role_name (rc_name role), Role_permissions (rc_permissions role)] (roles db) of
        Inl e \<Rightarrow> (Inl e, db)
      | Inr (None, rows) \<Rightarrow> (Inl (HTTPException 404 ''Role not found''), db\<lparr>roles := rows\<rparr>)
      | Inr (Some result, rows) \<Rightarrow> (Inr result, db\<lparr>roles := rows\<rparr>))"

subsection \<open>Users\<close>

text \<open>
  \<open>create_user\<close> takes the hashing primitive \<^verbatim>\<open>hashpw\<close>, the salt \<^verbatim>\<open>gensalt()\<close> returns
  and the time \<^verbatim>\<open>datetime.utcnow\<close> gives the \<^verbatim>\<open>registered_at\<close> default as parameters.
  Its first statement reads \<^verbatim>\<open>user.password\<close> of a \<^verbatim>\<open>UserCreate\<close> (lines 58-65).
\<close>

definition create_user ::
  "(string \<Rightarrow> string \<Rightarrow> string) \<Rightarrow> string \<Rightarrow> datetime \<Rightarrow> UserCreate \<Rightarrow> db \<Rightarrow> (error + User) \<times> db" where
  "create_user hashpw salt now user db =
     (case UserCreate_getattr user ''password'' of
        Inl e \<Rightarrow> (Inl e, db)
      | Inr password \<Rightarrow>
          (let hashed_password = hashpw password salt in
           case insert_returning u_id
                  (\<lambda>i. \<lparr>u_id = i, u_email = uc_email user, u_username = uc_username user,
                        u_registered_at = now, u_role_id = uc_role_id user,
                        u_hashed_password = hashed_password,
                        u_is_active = uc_is_active user,
                        u_is_superuser = uc_is_superuser user,
                        u_is_verified = uc_is_verified user\<rparr>)
                  [uc_role_id user] (list_ex (\<lambda>r. r_id r = uc_role_id user) (roles db))
                  (users_id_seq db) (users db) of
             (i, Inl e) \<Rightarrow> (Inl e, db\<lparr>users_id_seq := i\<rparr>)
           | (i, Inr (result, rows)) \<Rightarrow>
               (Inr (to_User result), db\<lparr>users := rows, users_id_seq := i\<rparr>)))"

text \<open>The query parameters \<^verbatim>\<open>limit: int = 10\<close> and \<^verbatim>\<open>offset: int = 0\<close>: \<open>None\<close> is a
  request without the parameter.\<close>

definition get_users :: "db \<Rightarrow> int option \<Rightarrow> int option \<Rightarrow> error + User list" where
  "get_users db limit offset =
     (case select_limit_offset (case limit of None \<Rightarrow> 10 | Some l \<Rightarrow> l)
             (case offset of None \<Rightarrow> 0 | Some k \<Rightarrow> k) (users db) of
        Inl e \<Rightarrow> Inl e
      | Inr result \<Rightarrow> Inr (map to_User result))"

definition get_user :: "int \<Rightarrow> db \<Rightarrow> error + User" where
  "get_user user_id db =
     (case select_by_id u_id user_id (users db) of
        None \<Rightarrow> Inl (HTTPException 404 ''User not found'')
      | Some result \<Rightarrow> Inr (to_User result))"

text \<open>The items of the dictionary that go to an \<^verbatim>\<open>Integer\<close> column of \<^verbatim>\<open>users\<close>: the
  \<^verbatim>\<open>role_id\<close>, which is also the table's only foreign key.\<close>

fun user_col_int :: "user_col \<Rightarrow> int list" where
  "user_col_int (Role_id v) = [v]"
| "user_col_int c = []"

definition update_user :: "int \<Rightarrow> UserUpdate \<Rightarrow> db \<Rightarrow> (error + User) \<times> db" where
  "update_user user_id user db =
     (case update_returning u_id set_user_col
             (concat (map user_col_int (not_None (UserUpdate_dict user))))
             (list_all (\<lambda>v. list_ex (\<lambda>r. r_id r = v) (roles db))
                (concat (map user_col_int (not_None (UserUpdate_dict user)))))
             user_id (not_None (UserUpdate_dict user)) (users db) of
        Inl e \<Rightarrow> (Inl e, db)
      | Inr (None, rows) \<Rightarrow> (Inl (HTTPException 404 ''User not found''), db\<lparr>users := rows\<rparr>)
      | Inr (Some result, rows) \<Rightarrow> (Inr (to_User result), db\<lparr>users := rows\<rparr>))"

subsection \<open>Artists\<close>

definition create_artist :: "ArtistCreate \<Rightarrow> db \<Rightarrow> (error + artist_row) \<times> db" where
  "create_artist artist db =
     (case insert_returning a_id
             (\<lambda>i. \<lparr>a_id = i, a_name = ac_name artist, a_genre = ac_genre artist,
                   a_country = ac_country artist\<rparr>)
             [] True (artists_id_seq db) (artists db) of
        (i, Inl e) \<Rightarrow> (Inl e, db\<lparr>artists_id_seq := i\<rparr>)
      | (i, Inr (result, rows)) \<Rightarrow> (Inr result, db\<lparr>artists := rows, artists_id_seq := i\<rparr>))"

definition get_artists :: "db \<Rightarrow> int option \<Rightarrow> int option \<Rightarrow> error + artist_row list" where
  "get_artists db limit offset =
     select_limit_offset (case limit of None \<Rightarrow> 10 | Some l \<Rightarrow> l)
       (case offset of None \<Rightarrow> 0 | Some k \<Rightarrow> k) (artists db)"

definition get_artist :: "int \<Rightarrow> db \<Rightarrow> error + artist_row" where
  "get_artist artist_id db =
     (case select_by_id a_id artist_id (artists db) of
        None \<Rightarrow> Inl (HTTPException 404 ''Artist not found'')
      | Some result \<Rightarrow> Inr result)"

text \<open>An album or a song references the artist (\<^verbatim>\<open>albums.artist_id\<close>,
  \<^verbatim>\<open>songs.artist_id\<close>).\<close>

definition artist_referenced :: "int \<Rightarrow> db \<Rightarrow> bool" where
  "artist_referenced artist_id db =
     (list_ex (\<lambda>r. al_artist_id r = artist_id) (albums db) \<or>
      list_ex (\<lambda>r. s_artist_id r = artist_id) (songs db))"

definition delete_artist :: "int \<Rightarrow> db \<Rightarrow> (error + json) \<times> db" where
  "delete_artist artist_id db =
     (case delete_where_id a_id (artist_referenced artist_id db) artist_id (artists db) of
        Inl e \<Rightarrow> (Inl e, db)
      | Inr (rowcount, rows) \<Rightarrow>
          (if rowcount = 0 then Inl (HTTPException 404 ''Artist not found'')
           else Inr [(''message'', ''Artist deleted successfully'')],
           db\<lparr>artists := rows\<rparr>))"

text \<open>The route \<^verbatim>\<open>PUT /artists/{artist_id}\<close> is declared twice (a third declaration,
  lines 297-310, stands inside a string literal and declares nothing). \<open>update_artist\<close>
  is the declaration of lines 312-321, which takes an \<^verbatim>\<open>ArtistUpdate\<close>;
  \<open>update_artist2\<close> is the declaration of lines 344-355 under the same name, which takes
  an \<^verbatim>\<open>ArtistCreate\<close>.\<close>

definition update_artist :: "int \<Rightarrow> ArtistUpdate \<Rightarrow> db \<Rightarrow> (error + artist_row) \<times> db" where
  "update_artist artist_id artist db =
     (case update_returning a_id set_artist_col [] True artist_id
             (not_None (ArtistUpdate_dict artist)) (artists db) of
        Inl e \<Rightarrow> (Inl e, db)
      | Inr (None, rows) \<Rightarrow> (Inl (HTTPException 404 ''Artist not found''), db\<lparr>artists := rows\<rparr>)
      | Inr (Some result, rows) \<Rightarrow> (Inr result, db\<lparr>artists := rows\<rparr>))"

definition update_artist2 :: "int \<Rightarrow> ArtistCreate \<Rightarrow> db \<Rightarrow> (error + artist_row) \<times> db" where
  "update_artist2 artist_id artist db =
     (case update_returning a_id set_artist_col [] True artist_id
             [Name (ac_name artist), Genre (ac_genre artist), Country (ac_country artist)]
             (artists db) of
        Inl e \<Rightarrow> (Inl e, db)
      | Inr (None, rows) \<Rightarrow> (Inl (HTTPException 404 ''Artist not found''), db\<lparr>artists := rows\<rparr>)
      | Inr (Some result, rows) \<Rightarrow> (Inr result, db\<lparr>artists := rows\<rparr>))"

subsection \<open>Albums and songs\<close>

definition create_album :: "AlbumCreate \<Rightarrow> db \<Rightarrow> (error + album_row) \<times> db" where
  "create_album album db =
     (case insert_returning al_id
             (\<lambda>i. \<lparr>al_id = i, al_title = alc_title album,
                   al_release_date = alc_release_date album,
                   al_artist_id = alc_artist_id album\<rparr>)
             [alc_artist_id album] (list_ex (\<lambda>r. a_id r = alc_artist_id album) (artists db))
             (albums_id_seq db) (albums db) of
        (i, Inl e) \<Rightarrow> (Inl e, db\<lparr>albums_id_seq := i\<rparr>)
      | (i, Inr (result, rows)) \<Rightarrow> (Inr result, db\<lparr>albums := rows, albums_id_seq := i\<rparr>))"

definition get_album :: "int \<Rightarrow> db \<Rightarrow> error + album_row" where
  "get_album album_id db =
     (case select_by_id al_id album_id (albums db) of
        None \<Rightarrow> Inl (HTTPException 404 ''Album not found'')
      | Some result \<Rightarrow> Inr result)"

definition create_song :: "SongCreate \<Rightarrow> db \<Rightarrow> (error + song_row) \<times> db" where
  "create_song song db =
     (case insert_returning s_id
             (\<lambda>i. \<lparr>s_id = i, s_title = sc_title song, s_duration = sc_duration song,
                   s_album_id = sc_album_id song, s_artist_id = sc_artist_id song\<rparr>)
             [sc_duration song, sc_album_id song, sc_artist_id song]
             (list_ex (\<lambda>r. al_id r = sc_album_id song) (albums db) \<and>
              list_ex (\<lambda>r. a_id r = sc_artist_id song) (artists db))
             (songs_id_seq db) (songs db) of
        (i, Inl e) \<Rightarrow> (Inl e, db\<lparr>songs_id_seq := i\<rparr>)
      | (i, Inr (result, rows)) \<Rightarrow> (Inr result, db\<lparr>songs := rows, songs_id_seq := i\<rparr>))"

definition get_song :: "int \<Rightarrow> db \<Rightarrow> error + song_row" where
  "get_song song_id db =
     (case select_by_id s_id song_id (songs db) of
        None \<Rightarrow> Inl (HTTPException 404 ''Song not found'')
      | Some result \<Rightarrow> Inr result)"

section \<open>Reference definitions for the properties\<close>

text \<open>The store of a database with no row, every sequence at its start.\<close>

definition empty_db :: db where
  "empty_db =
     \<lparr>roles = [], roles_id_seq = 0, users = [], users_id_seq = 0,
      artists = [], artists_id_seq = 0, albums = [], albums_id_seq = 0,
      songs = [], songs_id_seq = 0\<rparr>"

text \<open>A store with one role, two users and one artist, on which the handlers are
  evaluated below, and an album of that artist.\<close>

definition admin :: role_row where
  "admin = \<lparr>r_id = 1, r_name = ''admin'', r_permissions = [(''users'', ''write'')]\<rparr>"

definition alice :: user_row where
  "alice =
     \<lparr>u_id = 1, u_email = ''alice@example.org'', u_username = ''alice'',
      u_registered_at = 1700000000, u_role_id = 1, u_hashed_password = ''$2b$12$KIX'',
      u_is_active = True, u_is_superuser = False, u_is_verified = False\<rparr>"

definition bob :: user_row where
  "bob =
     \<lparr>u_id = 2, u_email = ''bob@example.org'', u_username = ''bob'',
      u_registered_at = 1700000600, u_role_id = 1, u_hashed_password = ''$2b$12$QZ9'',
      u_is_active = True, u_is_superuser = False, u_is_verified = True\<rparr>"

definition muse :: artist_row where
  "muse = \<lparr>a_id = 1, a_name = ''Muse'', a_genre = Some ''rock'', a_country = None\<rparr>"

definition absolution :: album_row where
  "absolution =
     \<lparr>al_id = 1, al_title = ''Absolution'', al_release_date = 1063756800, al_artist_id = 1\<rparr>"

definition sample_db :: db where
  "sample_db =
     empty_db\<lparr>roles := [admin], roles_id_seq := 1, users := [alice, bob],
       users_id_seq := 2, artists := [muse], artists_id_seq := 1\<rparr>"

text \<open>Every id of the table was drawn from its sequence: none exceeds the sequence's
  value. The rows a handler inserts keep it so.\<close>

definition ids_upto :: "('r \<Rightarrow> int) \<Rightarrow> int \<Rightarrow> 'r list \<Rightarrow> bool" where
  "ids_upto key seq rows = list_all (\<lambda>r. key r \<le> seq) rows"

text \<open>What the store asks of a user update: a \<^verbatim>\<open>role_id\<close> the payload gives is a 32-bit
  value, and it is the id of a role.\<close>

definition UserUpdate_int4 :: "UserUpdate \<Rightarrow> bool" where
  "UserUpdate_int4 p = (case uu_role_id p of None \<Rightarrow> True | Some v \<Rightarrow> int4 v)"

definition UserUpdate_refs :: "UserUpdate \<Rightarrow> db \<Rightarrow> bool" where
  "UserUpdate_refs p db =
     (case uu_role_id p of None \<Rightarrow> True | Some v \<Rightarrow> list_ex (\<lambda>r. r_id r = v) (roles db))"

text \<open>The partial update as the specification words it: a field that is present and
  non-null in the payload is applied, any other field keeps its prior value. The
  handlers are compared with these two functions below.\<close>

definition spec_merge_user :: "UserUpdate \<Rightarrow> user_row \<Rightarrow> user_row" where
  "spec_merge_user p r =
     r\<lparr>u_email := (case uu_email p of None \<Rightarrow> u_email r | Some v \<Rightarrow> v),
       u_username := (case uu_username p of None \<Rightarrow> u_username r | Some v \<Rightarrow> v),
       u_role_id := (case uu_role_id p of None \<Rightarrow> u_role_id r | Some v \<Rightarrow> v),
       u_hashed_password :=
         (case uu_hashed_password p of None \<Rightarrow> u_hashed_password r | Some v \<Rightarrow> v),
       u_is_active := (case uu_is_active p of None \<Rightarrow> u_is_active r | Some v \<Rightarrow> v),
       u_is_superuser := (case uu_is_superuser p of None \<Rightarrow> u_is_superuser r | Some v \<Rightarrow> v),
       u_is_verified := (case uu_is_verified p of None \<Rightarrow> u_is_verified r | Some v \<Rightarrow> v)\<rparr>"

definition spec_merge_artist :: "ArtistUpdate \<Rightarrow> artist_row \<Rightarrow> artist_row" where
  "spec_merge_artist p r =
     r\<lparr>a_name := (case au_name p of None \<Rightarrow> a_name r | Some v \<Rightarrow> v),
       a_genre := (case au_genre p of None \<Rightarrow> a_genre r | Some v \<Rightarrow> Some v),
       a_country := (case au_country p of None \<Rightarrow> a_country r | Some v \<Rightarrow> Some v)\<rparr>"

text \<open>A store with every stored password hash blanked: two stores that agree after
  \<open>erase_hashes\<close> differ in the \<^verbatim>\<open>hashed_password\<close> column only.\<close>

definition erase_hash :: "user_row \<Rightarrow> user_row" where
  "erase_hash r = r\<lparr>u_hashed_password := []\<rparr>"

definition erase_hashes :: "db \<Rightarrow> db" where
  "erase_hashes db = db\<lparr>users := map erase_hash (users db)\<rparr>"

section \<open>Properties of the statements\<close>

lemma find_filter_neq: "find (\<lambda>r. key r = i) (filter (\<lambda>r. key r \<noteq> i) rows) = None"
  by (induction rows) auto

lemma filter_Nil_find: "(filter P rows = []) = (find P rows = None)"
  by (induction rows) auto

lemma find_Some_key: "find (\<lambda>r. key r = i) rows = Some r \<Longrightarrow> key r = i"
  by (auto simp: find_Some_iff)

lemma find_append:
  "find P (xs @ ys) = (case find P xs of None \<Rightarrow> find P ys | Some x \<Rightarrow> Some x)"
  by (induction xs) auto

lemma find_filter_eq: "find (\<lambda>r. key r = i) (filter (\<lambda>r. key r = i) rows) = find (\<lambda>r. key r = i) rows"
  by (induction rows) auto

lemma hd_filter_find: "find P rows = Some r \<Longrightarrow> \<exists>rest. filter P rows = r # rest"
  by (induction rows) (auto split: if_splits)

text \<open>The scan after an update: the rows of other ids, then the new versions.\<close>

lemma find_moved:
  assumes "\<And>r. key (f r) = key r" and "find (\<lambda>r. key r = i) rows = Some r"
  shows "find (\<lambda>r. key r = i)
           (filter (\<lambda>r. key r \<noteq> i) rows @ map f (filter (\<lambda>r. key r = i) rows))
         = Some (f r)"
proof -
  obtain rest where "filter (\<lambda>r. key r = i) rows = r # rest"
    using hd_filter_find [OF assms(2)] by blast
  then show ?thesis
    using assms find_Some_key [of key i rows r] by (simp add: find_append find_filter_neq)
qed

lemma find_filter_other:
  "j \<noteq> i \<Longrightarrow> find (\<lambda>r. key r = j) (filter (\<lambda>r. key r \<noteq> i) rows) = find (\<lambda>r. key r = j) rows"
  by (induction rows) auto

lemma find_map_filter_other:
  assumes "\<And>r. key (f r) = key r" and "j \<noteq> i"
  shows "find (\<lambda>r. key r = j) (map f (filter (\<lambda>r. key r = i) rows)) = None"
  using assms by (induction rows) auto

lemma find_moved_other:
  assumes "\<And>r. key (f r) = key r" and "j \<noteq> i"
  shows "find (\<lambda>r. key r = j)
           (filter (\<lambda>r. key r \<noteq> i) rows @ map f (filter (\<lambda>r. key r = i) rows))
         = find (\<lambda>r. key r = j) rows"
  using assms by (simp add: find_append find_filter_other find_map_filter_other split: option.splits)


lemma mset_moved:
  assumes "\<And>r. g (f r) = g r"
  shows "mset (map g (filter (\<lambda>r. key r \<noteq> i) rows @ map f (filter (\<lambda>r. key r = i) rows)))
         = mset (map g rows)"
  using assms by (induction rows) auto

lemma mset_moved_or_same:
  assumes "\<And>r. g (f r) = g r"
    and "rows' = rows \<or>
         rows' = filter (\<lambda>r. key r \<noteq> i) rows @ map f (filter (\<lambda>r. key r = i) rows)"
  shows "mset (map g rows') = mset (map g rows)"
proof -
  from assms(2) show ?thesis
  proof
    assume "rows' = rows"
    then show ?thesis by (simp only:)
  next
    assume "rows' = filter (\<lambda>r. key r \<noteq> i) rows @ map f (filter (\<lambda>r. key r = i) rows)"
    then show ?thesis by (simp only: mset_moved [of g f, OF assms(1)])
  qed
qed

lemma filter_neq_absent:
  "find (\<lambda>r. key r = i) rows = None \<Longrightarrow> filter (\<lambda>r. key r \<noteq> i) rows = rows"
  by (induction rows) (auto split: if_splits)

lemma find_append_fresh:
  "i \<notin> set (map key rows) \<Longrightarrow> key row = i \<Longrightarrow>
     find (\<lambda>r. key r = i) (rows @ [row]) = Some row"
  by (induction rows) auto

lemma sorted_slice: "sorted (map key rows) \<Longrightarrow> sorted (map key (take n (drop m rows)))"
  by (simp add: take_map [symmetric] drop_map [symmetric])

subsection \<open>The dictionary of an update payload\<close>

lemma fold_user_values:
  "fold set_user_col (not_None (UserUpdate_dict p)) r = spec_merge_user p r"
  by (simp add: not_None_def UserUpdate_dict_def spec_merge_user_def split: option.splits)

lemma fold_artist_values:
  "fold set_artist_col (not_None (ArtistUpdate_dict p)) r = spec_merge_artist p r"
  by (simp add: not_None_def ArtistUpdate_dict_def spec_merge_artist_def split: option.splits)

lemma fold_user_values_fun:
  "fold set_user_col (not_None (UserUpdate_dict p)) = spec_merge_user p"
  by (rule ext) (rule fold_user_values)

lemma fold_artist_values_fun:
  "fold set_artist_col (not_None (ArtistUpdate_dict p)) = spec_merge_artist p"
  by (rule ext) (rule fold_artist_values)

lemma UserUpdate_values_Nil:
  "(not_None (UserUpdate_dict p) = []) = (p = UserUpdate_default)"
  by (cases p) (simp add: not_None_def UserUpdate_dict_def UserUpdate_default_def
      split: option.splits)

lemma ArtistUpdate_values_Nil:
  "(not_None (ArtistUpdate_dict p) = []) = (p = ArtistUpdate_default)"
  by (cases p) (simp add: not_None_def ArtistUpdate_dict_def ArtistUpdate_default_def
      split: option.splits)

lemma UserUpdate_ints:
  "concat (map user_col_int (not_None (UserUpdate_dict p)))
   = (case uu_role_id p of None \<Rightarrow> [] | Some v \<Rightarrow> [v])"
  by (simp add: not_None_def UserUpdate_dict_def split: option.splits)

lemma u_id_merge [simp]: "u_id (spec_merge_user p r) = u_id r"
  by (simp add: spec_merge_user_def)

lemma a_id_merge [simp]: "a_id (spec_merge_artist p r) = a_id r"
  by (simp add: spec_merge_artist_def)

lemma registered_at_merge [simp]: "u_registered_at (spec_merge_user p r) = u_registered_at r"
  by (simp add: spec_merge_user_def)

subsection \<open>The update handlers in closed form\<close>

lemma update_user_eq:
  "update_user i p db =
     (if p = UserUpdate_default then (Inl ProgrammingError, db)
      else if UserUpdate_int4 p then
        (case find (\<lambda>r. u_id r = i) (users db) of
           None \<Rightarrow> (Inl (HTTPException 404 ''User not found''), db)
         | Some r \<Rightarrow>
             if UserUpdate_refs p db
             then (Inr (to_User (spec_merge_user p r)),
                   db\<lparr>users := filter (\<lambda>r. u_id r \<noteq> i) (users db)
                                  @ map (spec_merge_user p) (filter (\<lambda>r. u_id r = i) (users db))\<rparr>)
             else (Inl IntegrityError, db))
      else (Inl DataError, db))"
  by (simp add: update_user_def update_returning_def fold_user_values_fun UserUpdate_ints
      UserUpdate_values_Nil UserUpdate_int4_def UserUpdate_refs_def split: option.splits)

lemma update_artist_eq:
  "update_artist i p db =
     (if p = ArtistUpdate_default then (Inl ProgrammingError, db)
      else (case find (\<lambda>r. a_id r = i) (artists db) of
              None \<Rightarrow> (Inl (HTTPException 404 ''Artist not found''), db)
            | Some r \<Rightarrow>
                (Inr (spec_merge_artist p r),
                 db\<lparr>artists := filter (\<lambda>r. a_id r \<noteq> i) (artists db)
                      @ map (spec_merge_artist p) (filter (\<lambda>r. a_id r = i) (artists db))\<rparr>)))"
  by (simp add: update_artist_def update_returning_def fold_artist_values_fun
      ArtistUpdate_values_Nil split: option.splits)

lemma update_role_eq:
  "update_role i role db =
     (case find (\<lambda>r. r_id r = i) (roles db) of
        None \<Rightarrow> (Inl (HTTPException 404 ''Role not found''), db)
      | Some r \<Rightarrow>
          (Inr (r\<lparr>r_name := rc_name role, r_permissions := rc_permissions role\<rparr>),
           db\<lparr>roles := filter (\<lambda>r. r_id r \<noteq> i) (roles db)
                @ map (\<lambda>r. r\<lparr>r_name := rc_name role, r_permissions := rc_permissions role\<rparr>)
                    (filter (\<lambda>r. r_id r = i) (roles db))\<rparr>))"
  by (simp add: update_role_def update_returning_def comp_def split: option.splits)

lemma update_artist2_eq:
  "update_artist2 i artist db =
     (case find (\<lambda>r. a_id r = i) (artists db) of
        None \<Rightarrow> (Inl (HTTPException 404 ''Artist not found''), db)
      | Some r \<Rightarrow>
          (Inr (r\<lparr>a_name := ac_name artist, a_genre := ac_genre artist,
                 a_country := ac_country artist\<rparr>),
           db\<lparr>artists := filter (\<lambda>r. a_id r \<noteq> i) (artists db)
                @ map (\<lambda>r. r\<lparr>a_name := ac_name artist, a_genre := ac_genre artist,
                              a_country := ac_country artist\<rparr>)
                    (filter (\<lambda>r. a_id r = i) (artists db))\<rparr>))"
  by (simp add: update_artist2_def update_returning_def comp_def split: option.splits)

lemma delete_artist_eq:
  "delete_artist i db =
     (case find (\<lambda>r. a_id r = i) (artists db) of
        None \<Rightarrow> (Inl (HTTPException 404 ''Artist not found''), db)
      | Some r \<Rightarrow>
          if artist_referenced i db then (Inl IntegrityError, db)
          else (Inr [(''message'', ''Artist deleted successfully'')],
                db\<lparr>artists := filter (\<lambda>r. a_id r \<noteq> i) (artists db)\<rparr>))"
  by (auto simp: delete_artist_def delete_where_id_def filter_Nil_find split: option.splits)

text \<open>\<^verbatim>\<open>UserCreate\<close> declares \<^verbatim>\<open>hashed_password\<close> and no \<^verbatim>\<open>password\<close>: the first statement of
  \<open>create_user\<close> raises on every payload, before any statement reaches the store.\<close>

lemma create_user_raises:
  "create_user hashpw salt now user db = (Inl (AttributeError ''password''), db)"
  by (simp add: create_user_def UserCreate_getattr_def)

text \<open>No handler of another table writes the users table.\<close>

lemma other_handlers_keep_users:
  "users (snd (create_role role db)) = users db
   \<and> users (snd (update_role k role db)) = users db
   \<and> users (snd (create_artist q2 db)) = users db
   \<and> users (snd (update_artist j q db)) = users db
   \<and> users (snd (update_artist2 j q2 db)) = users db
   \<and> users (snd (delete_artist j db)) = users db
   \<and> users (snd (create_album album db)) = users db
   \<and> users (snd (create_song song db)) = users db"
  by (simp add: create_role_def create_artist_def create_album_def create_song_def
      insert_returning_def Let_def update_role_eq update_artist_eq update_artist2_eq
      delete_artist_eq split: option.splits)

section \<open>Update\<close>




text \<open>
  C3. An update whose payload sets no field does not answer 200 with the record: the
  dictionary given to \<^verbatim>\<open>values\<close> is empty, the statement raises, and the client gets a
  500, for a user and for an artist, whether the id exists or not. The store is left as
  it was. User 1 of the sample store exists.
\<close>

theorem update_without_fields_raises:
  "update_user i UserUpdate_default db = (Inl ProgrammingError, db)
   \<and> status_code (fst (update_user i UserUpdate_default db)) = 500
   \<and> update_artist j ArtistUpdate_default db = (Inl ProgrammingError, db)
   \<and> status_code (fst (update_artist j ArtistUpdate_default db)) = 500
   \<and> get_user 1 sample_db = Inr (to_User alice)
   \<and> status_code (fst (update_user 1 UserUpdate_default sample_db)) = 500"
  by (simp add: update_user_eq update_artist_eq
      get_user_def select_by_id_def sample_db_def empty_db_def alice_def)

section \<open>Stored password hashes\<close>




section \<open>List\<close>

text \<open>
  The list is not ordered by primary key, not always limited, and not defined for every
  non-negative limit: with the users table scanned as bob (id 2), alice (id 1),
  \<open>get_users\<close> answers the ids 2, 1; \<open>get_roles\<close>, which has no \<^verbatim>\<open>limit\<close> and no
  \<^verbatim>\<open>offset\<close>, answers all eleven roles of a table of eleven; and the limit
  9223372036854775808 raises.
\<close>

theorem list_order_and_limit_counterexample:
  "map_sum (\<lambda>e. e) (map User_id) (get_users (sample_db\<lparr>users := [bob, alice]\<rparr>) None None)
     = Inr [2, 1]
   \<and> map_sum (\<lambda>e. e) length
       (get_roles (sample_db\<lparr>roles :=
          map (\<lambda>n. \<lparr>r_id = int n, r_name = ''role'', r_permissions = []\<rparr>) [1..<12]\<rparr>))
     = Inr 11
   \<and> get_users sample_db (Some 9223372036854775808) (Some 0) = Inl DataError
   \<and> status_code (get_users sample_db (Some 9223372036854775808) (Some 0)) = 500"
  by (simp add: get_users_def select_limit_offset_def get_roles_def to_User_def alice_def
      bob_def)

text \<open>
  C4 (amended). For users and for artists, the list with a limit and an offset from 0 to
  9223372036854775807 is the slice of the table's scan that skips \<open>offset\<close> rows and takes
  \<open>limit\<close> rows, a function of the store and the two arguments; the limit defaults to 10
  and the offset to 0; the slice ascends by primary key whenever the scan of the table
  does; an empty slice is answered as an empty list. The handlers do not check the two
  arguments: a negative one, or one above that bound, reaches the statement, which the
  engine refuses. The list of roles takes no limit and no offset and is the whole scan of
  the table.
\<close>

theorem list_returns_slice_of_scan:
  "(0 \<le> l \<and> l \<le> 9223372036854775807 \<and> 0 \<le> k \<and> k \<le> 9223372036854775807 \<longrightarrow>
      get_users db (Some l) (Some k)
        = Inr (map to_User (take (nat l) (drop (nat k) (users db)))) \<and>
      get_artists db (Some l) (Some k) = Inr (take (nat l) (drop (nat k) (artists db))))
   \<and> get_users db None ko = get_users db (Some 10) ko
   \<and> get_users db lo None = get_users db lo (Some 0)
   \<and> get_artists db None ko = get_artists db (Some 10) ko
   \<and> get_artists db lo None = get_artists db lo (Some 0)
   \<and> get_roles db = Inr (roles db)
   \<and> (0 \<le> l \<and> l \<le> 9223372036854775807 \<and> 0 \<le> k \<and> k \<le> 9223372036854775807 \<and>
      sorted (map u_id (users db)) \<longrightarrow>
        (\<exists>us. get_users db (Some l) (Some k) = Inr us \<and> sorted (map User_id us)))
   \<and> (0 \<le> l \<and> l \<le> 9223372036854775807 \<and> 0 \<le> k \<and> k \<le> 9223372036854775807 \<and>
      sorted (map a_id (artists db)) \<longrightarrow>
        (\<exists>as. get_artists db (Some l) (Some k) = Inr as \<and> sorted (map a_id as)))
   \<and> (l < 0 \<or> k < 0 \<or> 9223372036854775807 < l \<or> 9223372036854775807 < k \<longrightarrow>
        get_users db (Some l) (Some k) = Inl DataError \<and>
        get_artists db (Some l) (Some k) = Inl DataError)"
proof -
  have slice: "0 \<le> l \<and> l \<le> 9223372036854775807 \<and> 0 \<le> k \<and> k \<le> 9223372036854775807 \<longrightarrow>
      get_users db (Some l) (Some k)
        = Inr (map to_User (take (nat l) (drop (nat k) (users db)))) \<and>
      get_artists db (Some l) (Some k) = Inr (take (nat l) (drop (nat k) (artists db)))"
    by (simp add: get_users_def get_artists_def select_limit_offset_def)
  have dflt: "get_users db None ko = get_users db (Some 10) ko
      \<and> get_users db lo None = get_users db lo (Some 0)
      \<and> get_artists db None ko = get_artists db (Some 10) ko
      \<and> get_artists db lo None = get_artists db lo (Some 0)"
    by (simp add: get_users_def get_artists_def)
  have ids: "\<And>rows. map User_id (map to_User rows) = map u_id rows"
    by (simp add: to_User_def)
  have su: "0 \<le> l \<and> l \<le> 9223372036854775807 \<and> 0 \<le> k \<and> k \<le> 9223372036854775807 \<and>
      sorted (map u_id (users db)) \<longrightarrow>
        (\<exists>us. get_users db (Some l) (Some k) = Inr us \<and> sorted (map User_id us))"
    using slice sorted_slice [of u_id "users db" "nat l" "nat k"]
    by (auto simp: ids simp del: map_map)
  have sa: "0 \<le> l \<and> l \<le> 9223372036854775807 \<and> 0 \<le> k \<and> k \<le> 9223372036854775807 \<and>
      sorted (map a_id (artists db)) \<longrightarrow>
        (\<exists>as. get_artists db (Some l) (Some k) = Inr as \<and> sorted (map a_id as))"
    using slice sorted_slice [of a_id "artists db" "nat l" "nat k"] by auto
  have neg: "l < 0 \<or> k < 0 \<or> 9223372036854775807 < l \<or> 9223372036854775807 < k \<longrightarrow>
        get_users db (Some l) (Some k) = Inl DataError \<and>
        get_artists db (Some l) (Some k) = Inl DataError"
    by (auto simp: get_users_def get_artists_def select_limit_offset_def)
  show ?thesis
    using slice dflt su sa neg by (simp add: get_roles_def)
qed

text \<open>The theorem on the sample store and on the empty store.\<close>

theorem list_returns_slice_of_scan_witness:
  "(0::int) \<le> 1 \<and> (1::int) \<le> 9223372036854775807
   \<and> sorted (map u_id (users sample_db))
   \<and> sorted (map a_id (artists sample_db))
   \<and> get_users sample_db (Some 1) (Some 1) = Inr [to_User bob]
   \<and> get_users sample_db None None = Inr [to_User alice, to_User bob]
   \<and> get_artists sample_db (Some 1) (Some 1) = Inr []
   \<and> get_users empty_db None None = Inr []
   \<and> ((-1::int) < 0 \<or> (0::int) < 0)
   \<and> get_users sample_db (Some (-1)) (Some 0) = Inl DataError"
  using list_returns_slice_of_scan [of 1 1 sample_db None "Some 10"]
    list_returns_slice_of_scan [of 10 0 sample_db None "Some 10"]
    list_returns_slice_of_scan [of 10 0 empty_db None "Some 10"]
    list_returns_slice_of_scan [of "-1" 0 sample_db None "Some 10"]
  by (simp add: sample_db_def empty_db_def alice_def bob_def muse_def)

section \<open>An id that is not in the store\<close>

text \<open>
  C5. With no row under the id, every \<open>get\<close>, the delete and every update whose statement
  the engine takes answer 404 and leave the store as it was. An update of a user or of
  an artist whose payload sets no field does not: its statement raises before the id is
  looked at, and the client gets a 500. Nor does an update of a user whose payload gives a
  \<^verbatim>\<open>role_id\<close> out of the 32-bit range: the value is a constant of the statement, and the
  statement raises whether or not a row has the id.
\<close>

theorem absent_id_answers:
  assumes "select_by_id u_id i (users db) = None"
    and "select_by_id a_id j (artists db) = None"
    and "select_by_id r_id k (roles db) = None"
  shows "get_user i db = Inl (HTTPException 404 ''User not found'')
    \<and> update_user i p db =
        (if p = UserUpdate_default then Inl ProgrammingError
         else if UserUpdate_int4 p then Inl (HTTPException 404 ''User not found'')
         else Inl DataError, db)
    \<and> get_artist j db = Inl (HTTPException 404 ''Artist not found'')
    \<and> update_artist j q db =
        (if q = ArtistUpdate_default then Inl ProgrammingError
         else Inl (HTTPException 404 ''Artist not found''), db)
    \<and> update_artist2 j q2 db = (Inl (HTTPException 404 ''Artist not found''), db)
    \<and> delete_artist j db = (Inl (HTTPException 404 ''Artist not found''), db)
    \<and> get_role k db = Inl (HTTPException 404 ''Role not found'')
    \<and> update_role k role db = (Inl (HTTPException 404 ''Role not found''), db)"
proof -
  have u: "find (\<lambda>r. u_id r = i) (users db) = None"
    and a: "find (\<lambda>r. a_id r = j) (artists db) = None"
    and r: "find (\<lambda>r. r_id r = k) (roles db) = None"
    using assms by (simp_all add: select_by_id_def)
  have "get_user i db = Inl (HTTPException 404 ''User not found'')"
    using u by (simp add: get_user_def select_by_id_def)
  moreover have "update_user i p db =
        (if p = UserUpdate_default then Inl ProgrammingError
         else if UserUpdate_int4 p then Inl (HTTPException 404 ''User not found'')
         else Inl DataError, db)"
    using u by (simp add: update_user_eq)
  moreover have "get_artist j db = Inl (HTTPException 404 ''Artist not found'')"
    using a by (simp add: get_artist_def select_by_id_def)
  moreover have "update_artist j q db =
        (if q = ArtistUpdate_default then Inl ProgrammingError
         else Inl (HTTPException 404 ''Artist not found''), db)"
    using a by (simp add: update_artist_eq)
  moreover have "update_artist2 j q2 db = (Inl (HTTPException 404 ''Artist not found''), db)"
    using a by (simp add: update_artist2_eq)
  moreover have "delete_artist j db = (Inl (HTTPException 404 ''Artist not found''), db)"
    using a by (simp add: delete_artist_eq)
  moreover have "get_role k db = Inl (HTTPException 404 ''Role not found'')"
    using r by (simp add: get_role_def select_by_id_def)
  moreover have "update_role k role db = (Inl (HTTPException 404 ''Role not found''), db)"
    using r by (simp add: update_role_eq)
  ultimately show ?thesis by simp
qed

text \<open>The theorem at the id 999 on the sample store: 404 from the handlers that look the
  id up, 500 from the two updates without a field and from the update with the
  \<^verbatim>\<open>role_id\<close> 2147483648.\<close>

theorem absent_id_answers_witness:
  "select_by_id u_id 999 (users sample_db) = None
   \<and> select_by_id a_id 999 (artists sample_db) = None
   \<and> select_by_id r_id 999 (roles sample_db) = None
   \<and> status_code (get_user 999 sample_db) = 404
   \<and> status_code (fst (update_user 999 (UserUpdate_default\<lparr>uu_email := Some ''x@y.z''\<rparr>)
                          sample_db)) = 404
   \<and> status_code (fst (update_user 999 UserUpdate_default sample_db)) = 500
   \<and> status_code (fst (update_artist 999 ArtistUpdate_default sample_db)) = 500
   \<and> status_code (fst (delete_artist 999 sample_db)) = 404
   \<and> status_code (fst (update_role 999 (parse_RoleCreate ''root'' None) sample_db)) = 404
   \<and> status_code (fst (update_user 999 (UserUpdate_default\<lparr>uu_role_id := Some 2147483648\<rparr>)
                          sample_db)) = 500"
proof -
  have u: "select_by_id u_id 999 (users sample_db) = None"
    and a: "select_by_id a_id 999 (artists sample_db) = None"
    and r: "select_by_id r_id 999 (roles sample_db) = None"
    by (simp_all add: select_by_id_def sample_db_def empty_db_def alice_def bob_def muse_def
        admin_def)
  show ?thesis
    using u a r
      absent_id_answers [OF u a r, of "UserUpdate_default\<lparr>uu_email := Some ''x@y.z''\<rparr>"
        ArtistUpdate_default "\<lparr>ac_name = ''x'', ac_genre = None, ac_country = None\<rparr>"
        "parse_RoleCreate ''root'' None"]
      absent_id_answers [OF u a r, of UserUpdate_default
        ArtistUpdate_default "\<lparr>ac_name = ''x'', ac_genre = None, ac_country = None\<rparr>"
        "parse_RoleCreate ''root'' None"]
      absent_id_answers [OF u a r, of "UserUpdate_default\<lparr>uu_role_id := Some 2147483648\<rparr>"
        ArtistUpdate_default "\<lparr>ac_name = ''x'', ac_genre = None, ac_country = None\<rparr>"
        "parse_RoleCreate ''root'' None"]
    by (simp add: UserUpdate_default_def UserUpdate_int4_def int4_def)
qed

section \<open>Delete\<close>

text \<open>
  A delete does not always remove the record: with an album of artist 1 in the store, the
  \<^verbatim>\<open>DELETE\<close> of artist 1 violates the foreign key \<^verbatim>\<open>albums.artist_id\<close>, the handler does
  not catch the exception, the client gets a 500, and the artist is still there.
\<close>

theorem delete_referenced_artist_raises:
  "delete_artist 1 (sample_db\<lparr>albums := [absolution]\<rparr>)
     = (Inl IntegrityError, sample_db\<lparr>albums := [absolution]\<rparr>)
   \<and> status_code (fst (delete_artist 1 (sample_db\<lparr>albums := [absolution]\<rparr>))) = 500
   \<and> get_artist 1 (snd (delete_artist 1 (sample_db\<lparr>albums := [absolution]\<rparr>))) = Inr muse"
  by (simp add: delete_artist_eq artist_referenced_def get_artist_def select_by_id_def
      sample_db_def empty_db_def muse_def absolution_def)

text \<open>
  C6 (amended). For an artist id that no album and no song references, \<open>delete_artist\<close>
  answers 404 exactly when the \<^verbatim>\<open>DELETE\<close> statement reports a \<^verbatim>\<open>rowcount\<close> of zero, which
  is exactly when no row has the id (there is no lookup before the statement); otherwise
  it answers the confirmation message, not the row. The store it leaves holds every other
  row and no row with the id, so a \<open>get_artist\<close> of the id then answers 404, and a second
  \<open>delete_artist\<close> of the id answers 404 as well. For an artist in the store that an album
  or a song references, the statement raises and the store is left as it was.
\<close>

theorem delete_artist_removes_and_reports:
  "(\<not> artist_referenced i db \<longrightarrow>
      (fst (delete_artist i db) = Inl (HTTPException 404 ''Artist not found''))
        = (\<exists>rows. delete_where_id a_id False i (artists db) = Inr (0, rows))
      \<and> fst (delete_artist i db) =
          (if select_by_id a_id i (artists db) = None
           then Inl (HTTPException 404 ''Artist not found'')
           else Inr [(''message'', ''Artist deleted successfully'')])
      \<and> artists (snd (delete_artist i db)) = filter (\<lambda>r. a_id r \<noteq> i) (artists db)
      \<and> get_artist i (snd (delete_artist i db)) = Inl (HTTPException 404 ''Artist not found'')
      \<and> fst (delete_artist i (snd (delete_artist i db)))
          = Inl (HTTPException 404 ''Artist not found''))
   \<and> (artist_referenced i db \<and> select_by_id a_id i (artists db) = Some a \<longrightarrow>
        delete_artist i db = (Inl IntegrityError, db))"
proof (intro conjI impI)
  assume n: "\<not> artist_referenced i db"
  have after: "artists (snd (delete_artist i db)) = filter (\<lambda>r. a_id r \<noteq> i) (artists db)"
    using n by (simp add: delete_artist_eq filter_neq_absent split: option.splits)
  show "(fst (delete_artist i db) = Inl (HTTPException 404 ''Artist not found''))
        = (\<exists>rows. delete_where_id a_id False i (artists db) = Inr (0, rows))"
    using n by (auto simp: delete_artist_eq delete_where_id_def filter_Nil_find
        split: option.splits)
  show "fst (delete_artist i db) =
          (if select_by_id a_id i (artists db) = None
           then Inl (HTTPException 404 ''Artist not found'')
           else Inr [(''message'', ''Artist deleted successfully'')])"
    using n by (simp add: delete_artist_eq select_by_id_def split: option.splits)
  show "artists (snd (delete_artist i db)) = filter (\<lambda>r. a_id r \<noteq> i) (artists db)"
    by (rule after)
  show "get_artist i (snd (delete_artist i db)) = Inl (HTTPException 404 ''Artist not found'')"
    by (simp add: after get_artist_def select_by_id_def find_filter_neq)
  have "find (\<lambda>r. a_id r = i) (artists (snd (delete_artist i db))) = None"
    by (simp add: after find_filter_neq)
  then show "fst (delete_artist i (snd (delete_artist i db)))
          = Inl (HTTPException 404 ''Artist not found'')"
    by (simp add: delete_artist_eq [of i "snd (delete_artist i db)"])
next
  assume "artist_referenced i db \<and> select_by_id a_id i (artists db) = Some a"
  then show "delete_artist i db = (Inl IntegrityError, db)"
    by (simp add: delete_artist_eq select_by_id_def)
qed

text \<open>The theorem at artist 1: on the sample store, where nothing references it, the first
  delete answers the message and empties the table and the second answers 404; with an
  album of the artist in the store, the delete raises.\<close>

theorem delete_artist_removes_and_reports_witness:
  "\<not> artist_referenced 1 sample_db
   \<and> delete_artist 1 sample_db
     = (Inr [(''message'', ''Artist deleted successfully'')], sample_db\<lparr>artists := []\<rparr>)
   \<and> get_artist 1 (snd (delete_artist 1 sample_db))
     = Inl (HTTPException 404 ''Artist not found'')
   \<and> fst (delete_artist 1 (snd (delete_artist 1 sample_db)))
     = Inl (HTTPException 404 ''Artist not found'')
   \<and> artist_referenced 1 (sample_db\<lparr>albums := [absolution]\<rparr>)
   \<and> select_by_id a_id 1 (artists (sample_db\<lparr>albums := [absolution]\<rparr>)) = Some muse
   \<and> fst (delete_artist 1 (sample_db\<lparr>albums := [absolution]\<rparr>)) = Inl IntegrityError"
  using delete_artist_removes_and_reports [of 1 sample_db muse]
    delete_artist_removes_and_reports [of 1 "sample_db\<lparr>albums := [absolution]\<rparr>" muse]
  by (simp add: artist_referenced_def sample_db_def empty_db_def muse_def absolution_def
      select_by_id_def delete_artist_eq)

section \<open>Create, then get\<close>

text \<open>For roles, artists, albums and songs: a create that answers a record has given it
  the next value of the sequence as its id, an id no row of the table had, and the fields
  of the payload; a get of that id on the store it leaves answers the same record. The
  create answers a record whenever no id of the table exceeds the value of the sequence,
  the next value of the sequence and the integers of the payload are 32-bit values, and
  each foreign key of the payload is the id of a row; the table it leaves is again such a
  table.\<close>

lemma create_role_then_get_role:
  assumes "create_role role db = (Inr rec, db')"
  shows "r_id rec = roles_id_seq db + 1 \<and> r_id rec \<notin> set (map r_id (roles db))
    \<and> r_name rec = rc_name role \<and> r_permissions rec = rc_permissions role
    \<and> get_role (r_id rec) db' = Inr rec"
  using assms
  by (auto simp: create_role_def insert_returning_def Let_def get_role_def select_by_id_def
      find_append_fresh split: if_splits)

lemma ids_upto_fresh: "ids_upto key seq rows \<Longrightarrow> seq + 1 \<notin> set (map key rows)"
  by (induction rows) (auto simp: ids_upto_def)

lemma insert_returning_fresh:
  assumes "ids_upto key seq rows" and "\<And>n. key (mk n) = n"
    and "list_all int4 ints" and "int4 (seq + 1)" and "refs"
  shows "insert_returning key mk ints refs seq rows
           = (seq + 1, Inr (mk (seq + 1), rows @ [mk (seq + 1)]))
         \<and> ids_upto key (seq + 1) (rows @ [mk (seq + 1)])"
proof -
  have "list_all (\<lambda>r. key r \<le> seq + 1) rows"
    using assms(1) by (induction rows) (auto simp: ids_upto_def)
  then show ?thesis
    using assms ids_upto_fresh [of key seq rows]
    by (simp add: insert_returning_def Let_def ids_upto_def)
qed

lemma create_role_succeeds:
  assumes "ids_upto r_id (roles_id_seq db) (roles db)" and "int4 (roles_id_seq db + 1)"
  shows "\<exists>rec db'. create_role role db = (Inr rec, db')
           \<and> ids_upto r_id (roles_id_seq db') (roles db')"
  using insert_returning_fresh [OF assms(1), of
      "\<lambda>i. \<lparr>r_id = i, r_name = rc_name role, r_permissions = rc_permissions role\<rparr>" "[]" True]
    assms(2)
  by (simp add: create_role_def)

lemma create_artist_then_get_artist:
  assumes "create_artist artist db = (Inr rec, db')"
  shows "a_id rec = artists_id_seq db + 1 \<and> a_id rec \<notin> set (map a_id (artists db))
    \<and> a_name rec = ac_name artist \<and> a_genre rec = ac_genre artist
    \<and> a_country rec = ac_country artist
    \<and> get_artist (a_id rec) db' = Inr rec"
  using assms
  by (auto simp: create_artist_def insert_returning_def Let_def get_artist_def select_by_id_def
      find_append_fresh split: if_splits)

lemma create_artist_succeeds:
  assumes "ids_upto a_id (artists_id_seq db) (artists db)" and "int4 (artists_id_seq db + 1)"
  shows "\<exists>rec db'. create_artist artist db = (Inr rec, db')
           \<and> ids_upto a_id (artists_id_seq db') (artists db')"
  using insert_returning_fresh [OF assms(1), of
      "\<lambda>i. \<lparr>a_id = i, a_name = ac_name artist, a_genre = ac_genre artist,
            a_country = ac_country artist\<rparr>" "[]" True]
    assms(2)
  by (simp add: create_artist_def)

lemma create_album_then_get_album:
  assumes "create_album album db = (Inr rec, db')"
  shows "al_id rec = albums_id_seq db + 1 \<and> al_id rec \<notin> set (map al_id (albums db))
    \<and> al_title rec = alc_title album \<and> al_release_date rec = alc_release_date album
    \<and> al_artist_id rec = alc_artist_id album
    \<and> get_album (al_id rec) db' = Inr rec
    \<and> int4 (alc_artist_id album)
    \<and> list_ex (\<lambda>r. a_id r = alc_artist_id album) (artists db)"
  using assms
  by (auto simp: create_album_def insert_returning_def Let_def get_album_def select_by_id_def
      find_append_fresh split: if_splits)

lemma create_album_succeeds:
  assumes "ids_upto al_id (albums_id_seq db) (albums db)" and "int4 (albums_id_seq db + 1)"
    and "int4 (alc_artist_id album)"
    and "list_ex (\<lambda>r. a_id r = alc_artist_id album) (artists db)"
  shows "\<exists>rec db'. create_album album db = (Inr rec, db')
           \<and> ids_upto al_id (albums_id_seq db') (albums db')"
  using insert_returning_fresh [OF assms(1), of
      "\<lambda>i. \<lparr>al_id = i, al_title = alc_title album,
            al_release_date = alc_release_date album,
            al_artist_id = alc_artist_id album\<rparr>" "[alc_artist_id album]"
      "list_ex (\<lambda>r. a_id r = alc_artist_id album) (artists db)"]
    assms(2-4)
  by (simp add: create_album_def)

lemma create_album_dangling:
  "create_album \<lparr>alc_title = ''Drones'', alc_release_date = 1433462400, alc_artist_id = 999\<rparr>
     sample_db
   = (Inl IntegrityError, sample_db\<lparr>albums_id_seq := 1\<rparr>)"
  by (simp add: create_album_def insert_returning_def int4_def sample_db_def empty_db_def
      muse_def)

lemma create_song_then_get_song:
  assumes "create_song song db = (Inr rec, db')"
  shows "s_id rec = songs_id_seq db + 1 \<and> s_id rec \<notin> set (map s_id (songs db))
    \<and> s_title rec = sc_title song \<and> s_duration rec = sc_duration song
    \<and> s_album_id rec = sc_album_id song \<and> s_artist_id rec = sc_artist_id song
    \<and> get_song (s_id rec) db' = Inr rec
    \<and> int4 (sc_duration song) \<and> int4 (sc_album_id song) \<and> int4 (sc_artist_id song)
    \<and> list_ex (\<lambda>r. al_id r = sc_album_id song) (albums db)
    \<and> list_ex (\<lambda>r. a_id r = sc_artist_id song) (artists db)"
  using assms
  by (auto simp: create_song_def insert_returning_def Let_def get_song_def select_by_id_def
      find_append_fresh split: if_splits)

lemma create_song_succeeds:
  assumes "ids_upto s_id (songs_id_seq db) (songs db)" and "int4 (songs_id_seq db + 1)"
    and "int4 (sc_duration song)" and "int4 (sc_album_id song)" and "int4 (sc_artist_id song)"
    and "list_ex (\<lambda>r. al_id r = sc_album_id song) (albums db)"
    and "list_ex (\<lambda>r. a_id r = sc_artist_id song) (artists db)"
  shows "\<exists>rec db'. create_song song db = (Inr rec, db')
           \<and> ids_upto s_id (songs_id_seq db') (songs db')"
  using insert_returning_fresh [OF assms(1), of
      "\<lambda>i. \<lparr>s_id = i, s_title = sc_title song, s_duration = sc_duration song,
            s_album_id = sc_album_id song, s_artist_id = sc_artist_id song\<rparr>"
      "[sc_duration song, sc_album_id song, sc_artist_id song]"
      "list_ex (\<lambda>r. al_id r = sc_album_id song) (albums db) \<and>
       list_ex (\<lambda>r. a_id r = sc_artist_id song) (artists db)"]
    assms(2-7)
  by (simp add: create_song_def)

lemma create_role_example:
  "create_role (parse_RoleCreate ''admin'' (Some [])) empty_db
     = (Inr \<lparr>r_id = 1, r_name = ''admin'', r_permissions = []\<rparr>,
        empty_db\<lparr>roles := [\<lparr>r_id = 1, r_name = ''admin'', r_permissions = []\<rparr>],
                 roles_id_seq := 1\<rparr>)
   \<and> get_role 1 (snd (create_role (parse_RoleCreate ''admin'' (Some [])) empty_db))
     = Inr \<lparr>r_id = 1, r_name = ''admin'', r_permissions = []\<rparr>
   \<and> get_role 999 (snd (create_role (parse_RoleCreate ''admin'' (Some [])) empty_db))
     = Inl (HTTPException 404 ''Role not found'')"
  by (simp add: create_role_def insert_returning_def parse_RoleCreate_def empty_db_def
      get_role_def select_by_id_def int4_def)

text \<open>
  C7. For users the property fails on every payload: \<open>create_user\<close> answers no record and
  assigns no id. Its first statement reads an attribute the payload class does not have,
  the client gets a 500, and the store is as it was, so no later \<open>get_user\<close> finds the
  user.
\<close>

theorem create_user_returns_no_record:
  "fst (create_user hashpw salt now user db) = Inl (AttributeError ''password'')
   \<and> status_code (fst (create_user hashpw salt now user db)) = 500
   \<and> snd (create_user hashpw salt now user db) = db
   \<and> get_users (snd (create_user hashpw salt now user empty_db)) None None = Inr []"
  by (simp add: create_user_raises get_users_def select_limit_offset_def empty_db_def)

section \<open>What an update leaves alone\<close>

lemma pair_merge:
  "(u_id (spec_merge_user p r), u_registered_at (spec_merge_user p r))
   = (u_id r, u_registered_at r)"
  by (simp add: spec_merge_user_def)

text \<open>
  C8. No update changes an id, and nothing changes a \<^verbatim>\<open>registered_at\<close>: after
  \<open>update_user\<close>, with any payload and whatever it answers, the users table holds the same
  ids with the same \<^verbatim>\<open>registered_at\<close> (as a multiset, and under every id looked up), and
  a record it answers has the id asked for and the \<^verbatim>\<open>registered_at\<close> stored before;
  after an update of a role or an artist (either declaration) the table holds the same
  ids, and a record answered has the id asked for; the handlers of the other tables leave
  the users table as it was.
\<close>

theorem updates_keep_id_and_registered_at:
  "mset (map (\<lambda>r. (u_id r, u_registered_at r)) (users (snd (update_user i p db))))
     = mset (map (\<lambda>r. (u_id r, u_registered_at r)) (users db))
   \<and> map_option (\<lambda>r. (u_id r, u_registered_at r))
       (select_by_id u_id n (users (snd (update_user i p db))))
     = map_option (\<lambda>r. (u_id r, u_registered_at r)) (select_by_id u_id n (users db))
   \<and> (fst (update_user i p db) = Inr u \<longrightarrow>
        User_id u = i \<and>
        Some (User_registered_at u)
          = map_option u_registered_at (select_by_id u_id i (users db)))
   \<and> mset (map r_id (roles (snd (update_role k role db)))) = mset (map r_id (roles db))
   \<and> (fst (update_role k role db) = Inr ro \<longrightarrow> r_id ro = k)
   \<and> mset (map a_id (artists (snd (update_artist j q db)))) = mset (map a_id (artists db))
   \<and> (fst (update_artist j q db) = Inr a \<longrightarrow> a_id a = j)
   \<and> mset (map a_id (artists (snd (update_artist2 j q2 db)))) = mset (map a_id (artists db))
   \<and> (fst (update_artist2 j q2 db) = Inr a2 \<longrightarrow> a_id a2 = j)
   \<and> users (snd (create_role role db)) = users db
   \<and> users (snd (update_role k role db)) = users db
   \<and> users (snd (create_artist q2 db)) = users db
   \<and> users (snd (update_artist j q db)) = users db
   \<and> users (snd (update_artist2 j q2 db)) = users db
   \<and> users (snd (delete_artist j db)) = users db
   \<and> users (snd (create_album album db)) = users db
   \<and> users (snd (create_song song db)) = users db"
proof -
  have u1: "mset (map (\<lambda>r. (u_id r, u_registered_at r)) (users (snd (update_user i p db))))
     = mset (map (\<lambda>r. (u_id r, u_registered_at r)) (users db))"
  proof (rule mset_moved_or_same [of _ "spec_merge_user p" _ _ u_id i])
    show "\<And>r. (u_id (spec_merge_user p r), u_registered_at (spec_merge_user p r))
             = (u_id r, u_registered_at r)"
      by (rule pair_merge)
    show "users (snd (update_user i p db)) = users db \<or>
          users (snd (update_user i p db))
            = filter (\<lambda>r. u_id r \<noteq> i) (users db)
                @ map (spec_merge_user p) (filter (\<lambda>r. u_id r = i) (users db))"
      by (simp add: update_user_eq split: option.splits)
  qed
  have u3: "map_option (\<lambda>r. (u_id r, u_registered_at r))
       (select_by_id u_id n (users (snd (update_user i p db))))
     = map_option (\<lambda>r. (u_id r, u_registered_at r)) (select_by_id u_id n (users db))"
  proof (cases "n = i")
    case True
    then show ?thesis
      by (auto simp: update_user_eq select_by_id_def find_moved pair_merge
          split: option.splits)
  next
    case False
    then show ?thesis
      by (simp add: update_user_eq select_by_id_def find_moved_other split: option.splits)
  qed
  have u2: "fst (update_user i p db) = Inr u \<longrightarrow>
        User_id u = i \<and>
        Some (User_registered_at u)
          = map_option u_registered_at (select_by_id u_id i (users db))"
    by (auto simp: update_user_eq select_by_id_def to_User_def spec_merge_user_def
        dest: find_Some_key split: if_splits option.splits)
  have r1: "mset (map r_id (roles (snd (update_role k role db)))) = mset (map r_id (roles db))"
  proof (rule mset_moved_or_same [of _
        "\<lambda>r. r\<lparr>r_name := rc_name role, r_permissions := rc_permissions role\<rparr>" _ _ r_id k])
    show "\<And>r. r_id (r\<lparr>r_name := rc_name role, r_permissions := rc_permissions role\<rparr>) = r_id r"
      by simp
    show "roles (snd (update_role k role db)) = roles db \<or>
          roles (snd (update_role k role db))
            = filter (\<lambda>r. r_id r \<noteq> k) (roles db)
                @ map (\<lambda>r. r\<lparr>r_name := rc_name role, r_permissions := rc_permissions role\<rparr>)
                    (filter (\<lambda>r. r_id r = k) (roles db))"
      by (simp add: update_role_eq split: option.splits)
  qed
  have r2: "fst (update_role k role db) = Inr ro \<longrightarrow> r_id ro = k"
    by (auto simp: update_role_eq dest: find_Some_key split: option.splits)
  have a1: "mset (map a_id (artists (snd (update_artist j q db)))) = mset (map a_id (artists db))"
  proof (rule mset_moved_or_same [of _ "spec_merge_artist q" _ _ a_id j])
    show "\<And>r. a_id (spec_merge_artist q r) = a_id r"
      by simp
    show "artists (snd (update_artist j q db)) = artists db \<or>
          artists (snd (update_artist j q db))
            = filter (\<lambda>r. a_id r \<noteq> j) (artists db)
                @ map (spec_merge_artist q) (filter (\<lambda>r. a_id r = j) (artists db))"
      by (simp add: update_artist_eq split: option.splits)
  qed
  have a2: "fst (update_artist j q db) = Inr a \<longrightarrow> a_id a = j"
    by (auto simp: update_artist_eq dest: find_Some_key split: if_splits option.splits)
  have b1: "mset (map a_id (artists (snd (update_artist2 j q2 db)))) = mset (map a_id (artists db))"
  proof (rule mset_moved_or_same [of _
        "\<lambda>r. r\<lparr>a_name := ac_name q2, a_genre := ac_genre q2, a_country := ac_country q2\<rparr>"
        _ _ a_id j])
    show "\<And>r. a_id (r\<lparr>a_name := ac_name q2, a_genre := ac_genre q2,
                      a_country := ac_country q2\<rparr>) = a_id r"
      by simp
    show "artists (snd (update_artist2 j q2 db)) = artists db \<or>
          artists (snd (update_artist2 j q2 db))
            = filter (\<lambda>r. a_id r \<noteq> j) (artists db)
                @ map (\<lambda>r. r\<lparr>a_name := ac_name q2, a_genre := ac_genre q2,
                              a_country := ac_country q2\<rparr>)
                    (filter (\<lambda>r. a_id r = j) (artists db))"
      by (simp add: update_artist2_eq split: option.splits)
  qed
  have b2: "fst (update_artist2 j q2 db) = Inr a2 \<longrightarrow> a_id a2 = j"
    by (auto simp: update_artist2_eq dest: find_Some_key split: option.splits)
  show ?thesis
    using u1 u2 u3 r1 r2 a1 a2 b1 b2 other_handlers_keep_users [of role db k q2 j q album song]
    by simp
qed

text \<open>The theorem on the sample store, where each of the four updates answers a record;
  the update of user 1 leaves its row last in the scan.\<close>

theorem updates_keep_id_and_registered_at_witness:
  "fst (update_user 1 (UserUpdate_default\<lparr>uu_username := Some ''al''\<rparr>) sample_db)
     = Inr (to_User (alice\<lparr>u_username := ''al''\<rparr>))
   \<and> User_id (to_User (alice\<lparr>u_username := ''al''\<rparr>)) = 1
   \<and> User_registered_at (to_User (alice\<lparr>u_username := ''al''\<rparr>)) = u_registered_at alice
   \<and> fst (update_role 1 (parse_RoleCreate ''root'' None) sample_db)
     = Inr (admin\<lparr>r_name := ''root'', r_permissions := []\<rparr>)
   \<and> fst (update_artist 1 (ArtistUpdate_default\<lparr>au_genre := Some ''pop''\<rparr>) sample_db)
     = Inr (muse\<lparr>a_genre := Some ''pop''\<rparr>)
   \<and> fst (update_artist2 1 \<lparr>ac_name = ''Muse'', ac_genre = None, ac_country = None\<rparr> sample_db)
     = Inr (muse\<lparr>a_genre := None\<rparr>)
   \<and> map (\<lambda>r. (u_id r, u_registered_at r))
       (users (snd (update_user 1 (UserUpdate_default\<lparr>uu_username := Some ''al''\<rparr>) sample_db)))
     = [(2, 1700000600), (1, 1700000000)]"
  using updates_keep_id_and_registered_at [of 1 "UserUpdate_default\<lparr>uu_username := Some ''al''\<rparr>"
      sample_db 1 "to_User (alice\<lparr>u_username := ''al''\<rparr>)" 1 "parse_RoleCreate ''root'' None"
      "admin\<lparr>r_name := ''root'', r_permissions := []\<rparr>" 1
      "ArtistUpdate_default\<lparr>au_genre := Some ''pop''\<rparr>" "muse\<lparr>a_genre := Some ''pop''\<rparr>"
      "\<lparr>ac_name = ''Muse'', ac_genre = None, ac_country = None\<rparr>" "muse\<lparr>a_genre := None\<rparr>"]
  by (simp add: update_user_eq update_role_eq update_artist_eq update_artist2_eq
      UserUpdate_default_def UserUpdate_int4_def UserUpdate_refs_def
      ArtistUpdate_default_def sample_db_def empty_db_def alice_def bob_def muse_def admin_def
      spec_merge_user_def spec_merge_artist_def parse_RoleCreate_def to_User_def)

section \<open>The two declarations of the artist update\<close>

text \<open>
  C9. The two declarations of \<^verbatim>\<open>update_artist\<close> are not equivalent: there is a store with
  an artist and a request body that gives the name and omits genre and country, on which
  the declaration that drops null fields and the declaration that writes name, genre and
  country unconditionally answer different records and leave different rows.
\<close>

theorem update_artist_variants_differ:
  "\<exists>db artist_id name.
     select_by_id a_id artist_id (artists db) \<noteq> None \<and>
     fst (update_artist artist_id
            \<lparr>au_name = Some name, au_genre = None, au_country = None\<rparr> db)
       \<noteq> fst (update_artist2 artist_id
                \<lparr>ac_name = name, ac_genre = None, ac_country = None\<rparr> db) \<and>
     artists (snd (update_artist artist_id
                     \<lparr>au_name = Some name, au_genre = None, au_country = None\<rparr> db))
       \<noteq> artists (snd (update_artist2 artist_id
                         \<lparr>ac_name = name, ac_genre = None, ac_country = None\<rparr> db))"
proof -
  have "select_by_id a_id 1 (artists sample_db) \<noteq> None"
    by (simp add: select_by_id_def sample_db_def empty_db_def muse_def)
  moreover have
    "fst (update_artist 1 \<lparr>au_name = Some ''Muse'', au_genre = None, au_country = None\<rparr>
            sample_db)
       \<noteq> fst (update_artist2 1
                \<lparr>ac_name = ''Muse'', ac_genre = None, ac_country = None\<rparr> sample_db)"
    by (simp add: update_artist_def update_artist2_def update_returning_def not_None_def
        ArtistUpdate_dict_def sample_db_def empty_db_def muse_def)
  moreover have
    "artists (snd (update_artist 1
                     \<lparr>au_name = Some ''Muse'', au_genre = None, au_country = None\<rparr> sample_db))
       \<noteq> artists (snd (update_artist2 1
                         \<lparr>ac_name = ''Muse'', ac_genre = None, ac_country = None\<rparr> sample_db))"
    by (simp add: update_artist_def update_artist2_def update_returning_def not_None_def
        ArtistUpdate_dict_def sample_db_def empty_db_def muse_def)
  ultimately show ?thesis by blast
qed

text \<open>The two answers on the sample store: the genre kept by one declaration, set to null
  by the other.\<close>

lemma update_artist_variants_example:
  "fst (update_artist 1 \<lparr>au_name = Some ''Muse'', au_genre = None, au_country = None\<rparr> sample_db)
     = Inr \<lparr>a_id = 1, a_name = ''Muse'', a_genre = Some ''rock'', a_country = None\<rparr>
   \<and> fst (update_artist2 1 \<lparr>ac_name = ''Muse'', ac_genre = None, ac_country = None\<rparr> sample_db)
     = Inr \<lparr>a_id = 1, a_name = ''Muse'', a_genre = None, a_country = None\<rparr>"
  by (simp add: update_artist_def update_artist2_def update_returning_def not_None_def
      ArtistUpdate_dict_def sample_db_def empty_db_def muse_def)

section \<open>Responses and the stored password hash\<close>

lemma to_User_erase: "to_User (erase_hash r) = to_User r"
  by (simp add: to_User_def erase_hash_def)

lemma u_id_erase: "u_id (erase_hash r) = u_id r"
  by (simp add: erase_hash_def)

lemma erase_idem: "erase_hash (erase_hash r) = erase_hash r"
  by (simp add: erase_hash_def)

lemma erase_merge:
  "erase_hash (spec_merge_user p (erase_hash r)) = erase_hash (spec_merge_user p r)"
  by (simp add: erase_hash_def spec_merge_user_def cong: option.case_cong)

lemma to_User_merge_erase:
  "to_User (spec_merge_user p (erase_hash r)) = to_User (spec_merge_user p r)"
  by (simp add: to_User_def erase_hash_def spec_merge_user_def cong: option.case_cong)

lemma find_erase:
  "find (\<lambda>r. u_id r = i) (map erase_hash rows)
   = map_option erase_hash (find (\<lambda>r. u_id r = i) rows)"
  by (induction rows) (auto simp: u_id_erase)

lemma slice_erased:
  "map to_User (take n (drop m (map erase_hash rows))) = map to_User (take n (drop m rows))"
  by (simp add: drop_map take_map to_User_erase)

lemma moved_erased:
  "map erase_hash
     (filter (\<lambda>r. u_id r \<noteq> i) (map erase_hash rows)
        @ map (spec_merge_user p) (filter (\<lambda>r. u_id r = i) (map erase_hash rows)))
   = map erase_hash
       (filter (\<lambda>r. u_id r \<noteq> i) rows @ map (spec_merge_user p) (filter (\<lambda>r. u_id r = i) rows))"
proof -
  have a: "map erase_hash (filter (\<lambda>r. u_id r \<noteq> i) (map erase_hash rows))
        = map erase_hash (filter (\<lambda>r. u_id r \<noteq> i) rows)"
    by (induction rows) (simp_all add: u_id_erase erase_idem)
  have b: "map erase_hash (map (spec_merge_user p) (filter (\<lambda>r. u_id r = i) (map erase_hash rows)))
        = map erase_hash (map (spec_merge_user p) (filter (\<lambda>r. u_id r = i) rows))"
    by (induction rows) (simp_all add: u_id_erase erase_merge)
  show ?thesis
    by (simp only: map_append a b)
qed

lemma map_erase_idem: "map erase_hash (map erase_hash rows) = map erase_hash rows"
  by (induction rows) (simp_all add: erase_idem)

lemma refs_erased: "UserUpdate_refs p (erase_hashes db) = UserUpdate_refs p db"
  by (simp add: UserUpdate_refs_def erase_hashes_def split: option.splits)

lemma users_erased: "users (erase_hashes db) = map erase_hash (users db)"
  by (simp add: erase_hashes_def)

text \<open>Each response, and the erased store after an update, is a function of the erased
  store.\<close>

lemma get_user_erased: "get_user i db = get_user i (erase_hashes db)"
  by (simp add: get_user_def select_by_id_def erase_hashes_def find_erase to_User_erase
      split: option.splits)

lemma get_users_erased: "get_users db l k = get_users (erase_hashes db) l k"
  by (simp add: get_users_def select_limit_offset_def erase_hashes_def slice_erased
      del: map_map)

lemma update_user_fst_erased:
  "fst (update_user i p db) = fst (update_user i p (erase_hashes db))"
  by (simp add: update_user_eq refs_erased to_User_merge_erase find_erase users_erased
      split: option.splits)

lemma update_user_snd_erased:
  "erase_hashes (snd (update_user i p db))
   = erase_hashes (snd (update_user i p (erase_hashes db)))"
proof -
  have e: "users (erase_hashes db) = map erase_hash (users db)"
    by (rule users_erased)
  have idem: "erase_hashes (erase_hashes db) = erase_hashes db"
    by (simp add: erase_hashes_def map_erase_idem del: map_map)
  have moved: "erase_hashes
      (erase_hashes db\<lparr>users := filter (\<lambda>r. u_id r \<noteq> i) (map erase_hash (users db))
          @ map (spec_merge_user p) (filter (\<lambda>r. u_id r = i) (map erase_hash (users db)))\<rparr>)
     = erase_hashes
      (db\<lparr>users := filter (\<lambda>r. u_id r \<noteq> i) (users db)
          @ map (spec_merge_user p) (filter (\<lambda>r. u_id r = i) (users db))\<rparr>)"
    using moved_erased [of i "users db" p] by (simp add: erase_hashes_def del: map_append map_map)
  show ?thesis
    by (simp add: update_user_eq [of i p db] update_user_eq [of i p "erase_hashes db"]
        refs_erased e find_erase idem moved split: option.splits
        del: map_append map_map filter_append)
qed

text \<open>
  C10. The responses of the user handlers do not depend on a stored \<^verbatim>\<open>hashed_password\<close>:
  the response model has no such field, and on two stores that differ in stored password
  hashes only, \<open>get_user\<close>, \<open>get_users\<close>, \<open>update_user\<close> and \<open>create_user\<close> answer the same;
  the stores an update or a create leaves again differ in stored password hashes only.
\<close>

theorem user_responses_ignore_hashed_password:
  assumes "erase_hashes db1 = erase_hashes db2"
  shows "get_user i db1 = get_user i db2
    \<and> get_users db1 l k = get_users db2 l k
    \<and> fst (update_user i p db1) = fst (update_user i p db2)
    \<and> erase_hashes (snd (update_user i p db1)) = erase_hashes (snd (update_user i p db2))
    \<and> fst (create_user hashpw salt now user db1) = fst (create_user hashpw salt now user db2)
    \<and> erase_hashes (snd (create_user hashpw salt now user db1))
        = erase_hashes (snd (create_user hashpw salt now user db2))"
proof -
  have "get_user i db1 = get_user i db2"
    using assms get_user_erased [of i db1] get_user_erased [of i db2] by simp
  moreover have "get_users db1 l k = get_users db2 l k"
    using assms get_users_erased [of db1 l k] get_users_erased [of db2 l k] by simp
  moreover have "fst (update_user i p db1) = fst (update_user i p db2)"
    using assms update_user_fst_erased [of i p db1] update_user_fst_erased [of i p db2] by simp
  moreover have
    "erase_hashes (snd (update_user i p db1)) = erase_hashes (snd (update_user i p db2))"
    using assms update_user_snd_erased [of i p db1] update_user_snd_erased [of i p db2] by simp
  ultimately show ?thesis using assms by (simp add: create_user_raises)
qed

text \<open>The theorem on the sample store and the store that differs from it in the password
  hash of user 1.\<close>

theorem user_responses_ignore_hashed_password_witness:
  "erase_hashes sample_db
     = erase_hashes (sample_db\<lparr>users := [alice\<lparr>u_hashed_password := ''$2b$12$other''\<rparr>, bob]\<rparr>)
   \<and> sample_db \<noteq> sample_db\<lparr>users := [alice\<lparr>u_hashed_password := ''$2b$12$other''\<rparr>, bob]\<rparr>
   \<and> get_user 1 sample_db
     = get_user 1 (sample_db\<lparr>users := [alice\<lparr>u_hashed_password := ''$2b$12$other''\<rparr>, bob]\<rparr>)
   \<and> get_user 1 sample_db = Inr (to_User alice)
   \<and> get_users sample_db None None
     = get_users (sample_db\<lparr>users := [alice\<lparr>u_hashed_password := ''$2b$12$other''\<rparr>, bob]\<rparr>)
         None None
   \<and> fst (update_user 1 (UserUpdate_default\<lparr>uu_is_verified := Some True\<rparr>) sample_db)
     = fst (update_user 1 (UserUpdate_default\<lparr>uu_is_verified := Some True\<rparr>)
              (sample_db\<lparr>users := [alice\<lparr>u_hashed_password := ''$2b$12$other''\<rparr>, bob]\<rparr>))"
proof -
  have h: "erase_hashes sample_db
     = erase_hashes (sample_db\<lparr>users := [alice\<lparr>u_hashed_password := ''$2b$12$other''\<rparr>, bob]\<rparr>)"
    by (simp add: erase_hashes_def erase_hash_def sample_db_def empty_db_def alice_def bob_def)
  have d: "sample_db \<noteq> sample_db\<lparr>users := [alice\<lparr>u_hashed_password := ''$2b$12$other''\<rparr>, bob]\<rparr>"
    by (simp add: sample_db_def empty_db_def alice_def bob_def)
  have g: "get_user 1 sample_db = Inr (to_User alice)"
    by (simp add: get_user_def select_by_id_def sample_db_def empty_db_def alice_def)
  show ?thesis
    using h d g user_responses_ignore_hashed_password [OF h, of 1 None None
        "UserUpdate_default\<lparr>uu_is_verified := Some True\<rparr>"]
    by simp
qed

end
